theory Spec2Isabelle
  imports Complex_Main
begin

section \<open>Values, exceptions and the external collaborators\<close>

text \<open>
  The values \<^verbatim>\<open>request.get_json()\<close> hands to a route of \<^verbatim>\<open>apiwrapper.py\<close>:
  \<^verbatim>\<open>None\<close>, \<^verbatim>\<open>bool\<close>, \<^verbatim>\<open>int\<close>, \<^verbatim>\<open>float\<close>, \<^verbatim>\<open>str\<close>, \<^verbatim>\<open>list\<close> and \<^verbatim>\<open>dict\<close>.
  A dict is an association list in insertion order, looked up with \<open>map_of\<close>.
  A Python float is idealised as a real number (no rounding, no infinities, no NaN).
  The same type is used for what \<^verbatim>\<open>jsonify\<close> is given, and for the records of
  \<^verbatim>\<open>results_store\<close>.
\<close>

datatype json =
    JNull
  | JBool bool
  | JInt int
  | JFloat real
  | JStr string
  | JList "json list"
  | JObj "(string \<times> json) list"

text \<open>
  The instances of \<^verbatim>\<open>Exception\<close> that can reach an \<^verbatim>\<open>except Exception\<close> clause of the
  source: the three the interpreter raises for the operations the routes perform, and
  \<open>External m\<close>, an exception raised by Flask or by the agent library whose \<^verbatim>\<open>str()\<close>
  is \<open>m\<close>. Exceptions outside the class \<^verbatim>\<open>Exception\<close> (interpreter exit, keyboard
  interrupt) are not part of the model.
\<close>

datatype exc = TypeError | AttributeError | KeyError | External string

text \<open>The keyword arguments of \<^verbatim>\<open>Agent(...)\<close>.\<close>

record agent_args =
  task :: json
  llm :: json
  use_vision :: bool
  save_conversation_path :: "string option"

text \<open>
  What the source calls and does not define: constructing and running the agent (one
  call that returns the result or raises), \<^verbatim>\<open>str(result)\<close>, \<^verbatim>\<open>str()\<close> of a float, list
  or dict, \<^verbatim>\<open>json.dumps\<close>, and the message of an interpreter exception.
\<close>

record 'r world =
  agent :: "agent_args \<Rightarrow> exc + 'r"
  str_result :: "'r \<Rightarrow> string"
  py_repr :: "json \<Rightarrow> string"
  json_dumps :: "json \<Rightarrow> string"
  builtin_message :: "exc \<Rightarrow> string"

record response =
  status_code :: nat
  body :: json

section \<open>Python operations used by the routes\<close>

text \<open>\<^verbatim>\<open>str(e)\<close> for a caught exception.\<close>

definition str_exc :: "'r world \<Rightarrow> exc \<Rightarrow> string" where
  "str_exc w e = (case e of External m \<Rightarrow> m | _ \<Rightarrow> builtin_message w e)"

text \<open>Truth value of an object, as \<^verbatim>\<open>not data\<close> and \<^verbatim>\<open>if is_async\<close> test it.\<close>

fun truthy :: "json \<Rightarrow> bool" where
  "truthy JNull = False"
| "truthy (JBool b) = b"
| "truthy (JInt i) = (i \<noteq> 0)"
| "truthy (JFloat x) = (x \<noteq> 0)"
| "truthy (JStr s) = (s \<noteq> [])"
| "truthy (JList xs) = (xs \<noteq> [])"
| "truthy (JObj kvs) = (kvs \<noteq> [])"

text \<open>\<^verbatim>\<open>k in s\<close> for two strings: \<open>k\<close> occurs in \<open>s\<close> as a contiguous block.\<close>

fun str_contains :: "string \<Rightarrow> string \<Rightarrow> bool" where
  "str_contains k [] = (k = [])"
| "str_contains k (c # cs) = (take (length k) (c # cs) = k \<or> str_contains k cs)"

text \<open>
  \<^verbatim>\<open>k in data\<close> for a string \<open>k\<close>: key membership in a dict, element membership in a
  list, substring test in a string; the other types are not containers.
\<close>

fun py_in :: "string \<Rightarrow> json \<Rightarrow> exc + bool" where
  "py_in k (JObj kvs) = Inr (k \<in> set (map fst kvs))"
| "py_in k (JList xs) = Inr (JStr k \<in> set xs)"
| "py_in k (JStr s) = Inr (str_contains k s)"
| "py_in k JNull = Inl TypeError"
| "py_in k (JBool b) = Inl TypeError"
| "py_in k (JInt i) = Inl TypeError"
| "py_in k (JFloat x) = Inl TypeError"

text \<open>\<^verbatim>\<open>data[k]\<close> for a string \<open>k\<close>.\<close>

fun py_getitem :: "json \<Rightarrow> string \<Rightarrow> exc + json" where
  "py_getitem (JObj kvs) k = (case map_of kvs k of None \<Rightarrow> Inl KeyError | Some v \<Rightarrow> Inr v)"
| "py_getitem JNull k = Inl TypeError"
| "py_getitem (JBool b) k = Inl TypeError"
| "py_getitem (JInt i) k = Inl TypeError"
| "py_getitem (JFloat x) k = Inl TypeError"
| "py_getitem (JStr s) k = Inl TypeError"
| "py_getitem (JList xs) k = Inl TypeError"

text \<open>\<^verbatim>\<open>data.get(k, d)\<close>: only a dict has the method.\<close>

fun py_get :: "json \<Rightarrow> string \<Rightarrow> json \<Rightarrow> exc + json" where
  "py_get (JObj kvs) k d = Inr (case map_of kvs k of None \<Rightarrow> d | Some v \<Rightarrow> v)"
| "py_get JNull k d = Inl AttributeError"
| "py_get (JBool b) k d = Inl AttributeError"
| "py_get (JInt i) k d = Inl AttributeError"
| "py_get (JFloat x) k d = Inl AttributeError"
| "py_get (JStr s) k d = Inl AttributeError"
| "py_get (JList xs) k d = Inl AttributeError"

text \<open>\<^verbatim>\<open>int(x)\<close> for a float: truncation towards zero.\<close>

definition py_int :: "real \<Rightarrow> int" where
  "py_int x = (if 0 \<le> x then \<lfloor>x\<rfloor> else \<lceil>x\<rceil>)"

text \<open>Decimal digits of a natural number, and \<^verbatim>\<open>str()\<close> of an int.\<close>

definition digit :: "nat \<Rightarrow> char" where
  "digit d = ''0123456789'' ! d"

function show_nat :: "nat \<Rightarrow> string" where
  "show_nat n = (if n < 10 then [digit n] else show_nat (n div 10) @ [digit (n mod 10)])"
  by pat_completeness auto
termination
  by (relation "measure (\<lambda>n. n)") auto

declare show_nat.simps [simp del]

definition show_int :: "int \<Rightarrow> string" where
  "show_int i = (if i < 0 then CHR ''-'' # show_nat (nat (- i)) else show_nat (nat i))"

text \<open>
  What an f-string puts for \<^verbatim>\<open>{v}\<close>: \<^verbatim>\<open>str(v)\<close>, which is the string itself for a
  \<^verbatim>\<open>str\<close>.
\<close>

fun py_str :: "'r world \<Rightarrow> json \<Rightarrow> string" where
  "py_str w (JStr s) = s"
| "py_str w JNull = ''None''"
| "py_str w (JBool b) = (if b then ''True'' else ''False'')"
| "py_str w (JInt i) = show_int i"
| "py_str w (JFloat x) = py_repr w (JFloat x)"
| "py_str w (JList xs) = py_repr w (JList xs)"
| "py_str w (JObj kvs) = py_repr w (JObj kvs)"

text \<open>Whether an object can be a dict key: lists and dicts are unhashable.\<close>

fun hashable :: "json \<Rightarrow> bool" where
  "hashable (JList xs) = False"
| "hashable (JObj kvs) = False"
| "hashable JNull = True"
| "hashable (JBool b) = True"
| "hashable (JInt i) = True"
| "hashable (JFloat x) = True"
| "hashable (JStr s) = True"

text \<open>Whether an object is a dict (a JSON mapping).\<close>

fun is_dict :: "json \<Rightarrow> bool" where
  "is_dict (JObj kvs) = True"
| "is_dict JNull = False"
| "is_dict (JBool b) = False"
| "is_dict (JInt i) = False"
| "is_dict (JFloat x) = False"
| "is_dict (JStr s) = False"
| "is_dict (JList xs) = False"

text \<open>\<^verbatim>\<open>jsonify({"error": msg}), code\<close>.\<close>

definition error_response :: "nat \<Rightarrow> string \<Rightarrow> response" where
  "error_response code msg = \<lparr>status_code = code, body = JObj [(''error'', JStr msg)]\<rparr>"

text \<open>The \<^verbatim>\<open>except Exception as e\<close> clause of the two POST routes.\<close>

definition server_error :: "'r world \<Rightarrow> exc \<Rightarrow> response" where
  "server_error w e = error_response 500 (str_exc w e)"

section \<open>The task registry and the background execution\<close>

type_synonym results_store = "string \<rightharpoonup> json"

text \<open>The arguments a background thread is started with.\<close>

type_synonym thread_args = "string \<times> json \<times> json"

text \<open>
  \<^verbatim>\<open>run_browser_task(task_id, prompt, model_name)\<close>. \<open>now\<close> is what \<^verbatim>\<open>time.time()\<close>
  returns when the record is built. The result is the store after the call, or the
  exception that leaves the function.
\<close>

definition run_browser_task ::
  "'r world \<Rightarrow> real \<Rightarrow> thread_args \<Rightarrow> results_store \<Rightarrow> exc + results_store" where
  "run_browser_task w now args store =
     (case args of (task_id, prompt, model_name) \<Rightarrow>
        (case agent w \<lparr>task = prompt, llm = model_name, use_vision = True,
                save_conversation_path = Some (''./conversations/'' @ task_id @ ''.json'')\<rparr> of
           Inr result \<Rightarrow>
             Inr (store(task_id \<mapsto> JObj [(''status'', JStr ''completed''),
                                         (''result'', JStr (str_result w result)),
                                         (''timestamp'', JFloat now)]))
         | Inl e \<Rightarrow>
             Inr (store(task_id \<mapsto> JObj [(''status'', JStr ''error''),
                                         (''error'', JStr (str_exc w e)),
                                         (''timestamp'', JFloat now)]))))"

section \<open>The routes\<close>

text \<open>\<^verbatim>\<open>GET /health\<close>.\<close>

definition health_check :: response where
  "health_check =
     \<lparr>status_code = 200,
      body = JObj [(''status'', JStr ''healthy''), (''service'', JStr ''browser-use-api'')]\<rparr>"

text \<open>
  What a POST route did besides answering: the agent invocations it made inline, and
  the background threads it started.
\<close>

record effects =
  resp :: response
  calls :: "agent_args list"
  started :: "thread_args list"

definition answer :: "response \<Rightarrow> effects" where
  "answer r = \<lparr>resp = r, calls = [], started = []\<rparr>"

text \<open>
  \<^verbatim>\<open>POST /browser/run\<close>. \<open>req\<close> is the outcome of \<^verbatim>\<open>request.get_json()\<close>, \<open>now\<close>
  the value of \<^verbatim>\<open>time.time()\<close> in the asynchronous branch.
\<close>

definition run_browser_automation :: "'r world \<Rightarrow> real \<Rightarrow> exc + json \<Rightarrow> effects" where
  "run_browser_automation w now req =
     (case req of
        Inl e \<Rightarrow> answer (server_error w e)
      | Inr data \<Rightarrow>
          if \<not> truthy data then answer (error_response 400 ''Missing 'prompt' in request body'')
          else (case py_in ''prompt'' data of
            Inl e \<Rightarrow> answer (server_error w e)
          | Inr False \<Rightarrow> answer (error_response 400 ''Missing 'prompt' in request body'')
          | Inr True \<Rightarrow>
          (case py_getitem data ''prompt'' of
            Inl e \<Rightarrow> answer (server_error w e)
          | Inr prompt \<Rightarrow>
          (case py_get data ''model'' (JStr ''gpt-4o-mini'') of
            Inl e \<Rightarrow> answer (server_error w e)
          | Inr model_name \<Rightarrow>
          (case py_get data ''async'' (JBool False) of
            Inl e \<Rightarrow> answer (server_error w e)
          | Inr is_async \<Rightarrow>
              if truthy is_async then
                (let task_id = ''task_'' @ show_int (py_int (now * 1000)) in
                 \<lparr>resp = \<lparr>status_code = 200,
                           body = JObj [(''task_id'', JStr task_id),
                                        (''status'', JStr ''started''),
                                        (''message'', JStr ''Task started. Use /browser/status/{task_id} to check progress'')]\<rparr>,
                  calls = [],
                  started = [(task_id, prompt, model_name)]\<rparr>)
              else
                (let a = \<lparr>task = prompt, llm = model_name, use_vision = True,
                          save_conversation_path = None\<rparr> in
                 case agent w a of
                   Inl e \<Rightarrow> \<lparr>resp = server_error w e, calls = [a], started = []\<rparr>
                 | Inr result \<Rightarrow>
                     \<lparr>resp = \<lparr>status_code = 200,
                               body = JObj [(''status'', JStr ''completed''),
                                            (''result'', JStr (str_result w result)),
                                            (''prompt'', prompt)]\<rparr>,
                      calls = [a], started = []\<rparr>))))))"

text \<open>\<^verbatim>\<open>GET /browser/status/<task_id>\<close>.\<close>

definition get_task_status :: "results_store \<Rightarrow> string \<Rightarrow> response" where
  "get_task_status store task_id =
     (case store task_id of
        None \<Rightarrow> error_response 404 ''Task not found''
      | Some record \<Rightarrow> \<lparr>status_code = 200, body = record\<rparr>)"

text \<open>
  The dict \<^verbatim>\<open>prompts\<close> of \<^verbatim>\<open>simple_browser_task\<close>: the four entries are built in
  order before the action is looked at, and the third calls \<^verbatim>\<open>extra_data.get\<close>.
\<close>

definition prompts :: "'r world \<Rightarrow> json \<Rightarrow> json \<Rightarrow> exc + (string \<times> string) list" where
  "prompts w target extra_data =
     (case py_get extra_data ''element'' (JStr ''submit button'') of
        Inl e \<Rightarrow> Inl e
      | Inr element \<Rightarrow>
          Inr [(''search'', ''Search for '' @ [CHR 0x27] @ py_str w target @ [CHR 0x27]
                   @ '' on Google and return the top 3 results with titles and URLs''),
               (''scrape'', ''Go to '' @ py_str w target
                   @ '' and extract the main content, headings, and key information from the page''),
               (''click'', ''Go to '' @ py_str w target
                   @ '' and click on the element: '' @ py_str w element),
               (''fill_form'', ''Go to '' @ py_str w target
                   @ '' and fill out the form with this data: '' @ json_dumps w extra_data)])"

text \<open>
  \<^verbatim>\<open>prompts[action]\<close> after \<^verbatim>\<open>action not in prompts\<close>: hashing the action raises for
  a list or a dict; only a string equals a key.
\<close>

definition lookup_action :: "(string \<times> string) list \<Rightarrow> json \<Rightarrow> exc + string option" where
  "lookup_action ps action =
     (if \<not> hashable action then Inl TypeError
      else (case action of JStr a \<Rightarrow> Inr (map_of ps a) | _ \<Rightarrow> Inr None))"

text \<open>\<^verbatim>\<open>POST /browser/simple\<close>.\<close>

definition simple_browser_task :: "'r world \<Rightarrow> exc + json \<Rightarrow> effects" where
  "simple_browser_task w req =
     (case req of
        Inl e \<Rightarrow> answer (server_error w e)
      | Inr data \<Rightarrow>
          if \<not> truthy data
          then answer (error_response 400 ''Missing 'action' or 'target' in request body'')
          else (case py_in ''action'' data of
            Inl e \<Rightarrow> answer (server_error w e)
          | Inr False \<Rightarrow>
              answer (error_response 400 ''Missing 'action' or 'target' in request body'')
          | Inr True \<Rightarrow>
          (case py_in ''target'' data of
            Inl e \<Rightarrow> answer (server_error w e)
          | Inr False \<Rightarrow>
              answer (error_response 400 ''Missing 'action' or 'target' in request body'')
          | Inr True \<Rightarrow>
          (case py_getitem data ''action'' of
            Inl e \<Rightarrow> answer (server_error w e)
          | Inr action \<Rightarrow>
          (case py_getitem data ''target'' of
            Inl e \<Rightarrow> answer (server_error w e)
          | Inr target \<Rightarrow>
          (case py_get data ''data'' (JObj []) of
            Inl e \<Rightarrow> answer (server_error w e)
          | Inr extra_data \<Rightarrow>
          (case prompts w target extra_data of
            Inl e \<Rightarrow> answer (server_error w e)
          | Inr ps \<Rightarrow>
          (case lookup_action ps action of
            Inl e \<Rightarrow> answer (server_error w e)
          | Inr None \<Rightarrow>
              answer (error_response 400 (''Unsupported action: '' @ py_str w action))
          | Inr (Some prompt) \<Rightarrow>
              (let a = \<lparr>task = JStr prompt, llm = JStr ''gpt-4o-mini'', use_vision = True,
                        save_conversation_path = None\<rparr> in
               case agent w a of
                 Inl e \<Rightarrow> \<lparr>resp = server_error w e, calls = [a], started = []\<rparr>
               | Inr result \<Rightarrow>
                   \<lparr>resp = \<lparr>status_code = 200,
                             body = JObj [(''status'', JStr ''completed''),
                                          (''action'', action),
                                          (''target'', target),
                                          (''result'', JStr (str_result w result))]\<rparr>,
                    calls = [a], started = []\<rparr>)))))))))"

section \<open>The service as a transition system\<close>

text \<open>
  The process state: the dict \<^verbatim>\<open>results_store\<close>, and the background threads that have
  been started and have not finished yet, with the arguments they were given.
\<close>

record state =
  results_store :: results_store
  running :: "thread_args list"

definition init :: state where
  "init = \<lparr>results_store = Map.empty, running = []\<rparr>"

text \<open>The four routes registered with \<^verbatim>\<open>@app.route\<close>.\<close>

datatype request =
    GetHealth
  | PostRun "exc + json"
  | GetStatus string
  | PostSimple "exc + json"

text \<open>
  Serving one request. Only \<^verbatim>\<open>POST /browser/run\<close> changes the state, by the threads it
  starts; no route assigns to \<^verbatim>\<open>results_store\<close>.
\<close>

fun serve :: "'r world \<Rightarrow> real \<Rightarrow> state \<Rightarrow> request \<Rightarrow> response \<times> state" where
  "serve w now st GetHealth = (health_check, st)"
| "serve w now st (PostRun req) =
     (let e = run_browser_automation w now req
      in (resp e, st\<lparr>running := running st @ started e\<rparr>))"
| "serve w now st (GetStatus task_id) = (get_task_status (results_store st) task_id, st)"
| "serve w now st (PostSimple req) = (resp (simple_browser_task w req), st)"

text \<open>
  An event is a request being served, or the \<open>i\<close>-th running thread coming to the end
  of \<^verbatim>\<open>run_browser_task\<close>. Every event has its own world and clock reading, so the agent
  may answer differently each time it is run.
\<close>

datatype event = Request request | Finish nat

definition remove_nth :: "nat \<Rightarrow> 'a list \<Rightarrow> 'a list" where
  "remove_nth i xs = take i xs @ drop (Suc i) xs"

fun step :: "'r world \<Rightarrow> real \<Rightarrow> state \<Rightarrow> event \<Rightarrow> state" where
  "step w now st (Request req) = snd (serve w now st req)"
| "step w now st (Finish i) =
     (if i < length (running st) then
        (case run_browser_task w now (running st ! i) (results_store st) of
           Inr store' \<Rightarrow> \<lparr>results_store = store', running = remove_nth i (running st)\<rparr>
         | Inl e \<Rightarrow> st\<lparr>running := remove_nth i (running st)\<rparr>)
      else st)"

fun exec :: "state \<Rightarrow> ('r world \<times> real \<times> event) list \<Rightarrow> state" where
  "exec st [] = st"
| "exec st ((w, now, ev) # evs) = exec (step w now st ev) evs"

text \<open>The task ids under which the background executions of a run have finished.\<close>

fun finished_id :: "state \<Rightarrow> event \<Rightarrow> string list" where
  "finished_id st (Request req) = []"
| "finished_id st (Finish i) = (if i < length (running st) then [fst (running st ! i)] else [])"

fun finished_ids :: "state \<Rightarrow> ('r world \<times> real \<times> event) list \<Rightarrow> string list" where
  "finished_ids st [] = []"
| "finished_ids st ((w, now, ev) # evs) = finished_id st ev @ finished_ids (step w now st ev) evs"




text \<open>The \<^verbatim>\<open>"status"\<close> entry of a stored record.\<close>

fun status_of :: "json \<Rightarrow> json option" where
  "status_of (JObj kvs) = map_of kvs ''status''"
| "status_of JNull = None"
| "status_of (JBool b) = None"
| "status_of (JInt i) = None"
| "status_of (JFloat x) = None"
| "status_of (JStr s) = None"
| "status_of (JList xs) = None"


text \<open>
  A stand-in world for concrete runs: the agent fails on the task \<^verbatim>\<open>boom\<close> and
  returns \<^verbatim>\<open>done\<close> otherwise; \<^verbatim>\<open>json.dumps\<close> is given for the one dict that the
  examples serialise, \<^verbatim>\<open>{"field": "value"}\<close>.
\<close>

definition stub_world :: "string world" where
  "stub_world =
     \<lparr>agent = (\<lambda>a. if task a = JStr ''boom'' then Inl (External ''agent failed'') else Inr ''done''),
      str_result = (\<lambda>r. r),
      py_repr = (\<lambda>v. ''<repr>''),
      json_dumps = (\<lambda>v. if v = JObj [(''field'', JStr ''value'')]
                        then ''{'' @ [CHR 0x22] @ ''field'' @ [CHR 0x22] @ '': ''
                               @ [CHR 0x22] @ ''value'' @ [CHR 0x22] @ ''}''
                        else ''<json>''),
      builtin_message = (\<lambda>e. ''<message>'')\<rparr>"

section \<open>The health check and the status lookup\<close>

text \<open>
  C10. Every \<^verbatim>\<open>GET /health\<close>, whatever the state of the process (the registry, the
  running threads) and whatever the clock and the world, is answered with 200 and the
  payload \<^verbatim>\<open>{status: "healthy", service: "browser-use-api"}\<close>, and leaves the state as
  it was.
\<close>

theorem health_check_always_healthy:
  "fst (serve w now st GetHealth) = health_check
   \<and> snd (serve w now st GetHealth) = st
   \<and> status_code health_check = 200
   \<and> body health_check
       = JObj [(''status'', JStr ''healthy''), (''service'', JStr ''browser-use-api'')]"
  by (simp add: health_check_def)

text \<open>
  C4. \<^verbatim>\<open>GET /browser/status/<task_id>\<close>: when the task id has no entry in the
  registry the answer is 404 with \<^verbatim>\<open>{error: "Task not found"}\<close>; otherwise it is 200
  and its body is the stored record itself.
\<close>

theorem get_task_status_lookup:
  "(store task_id = None \<longrightarrow>
      get_task_status store task_id
        = \<lparr>status_code = 404, body = JObj [(''error'', JStr ''Task not found'')]\<rparr>)
   \<and> (\<forall>record. store task_id = Some record \<longrightarrow>
      get_task_status store task_id = \<lparr>status_code = 200, body = record\<rparr>)"
  by (simp add: get_task_status_def error_response_def)

theorem get_task_status_lookup_witness:
  "get_task_status (Map.empty(''task_1'' \<mapsto> JObj [(''status'', JStr ''completed'')])) ''task_2''
     = \<lparr>status_code = 404, body = JObj [(''error'', JStr ''Task not found'')]\<rparr>
   \<and> get_task_status (Map.empty(''task_1'' \<mapsto> JObj [(''status'', JStr ''completed'')])) ''task_1''
     = \<lparr>status_code = 200, body = JObj [(''status'', JStr ''completed'')]\<rparr>"
  using get_task_status_lookup
          [of "Map.empty(''task_1'' \<mapsto> JObj [(''status'', JStr ''completed'')])" "''task_2''"]
        get_task_status_lookup
          [of "Map.empty(''task_1'' \<mapsto> JObj [(''status'', JStr ''completed'')])" "''task_1''"]
  by simp

section \<open>The run route\<close>

text \<open>A key that \<open>map_of\<close> finds is a key of the dict, and the dict is not empty.\<close>

lemma map_of_Some_in_keys: "map_of kvs k = Some v \<Longrightarrow> k \<in> set (map fst kvs)"
  by (metis map_of_eq_None_iff option.distinct(1) set_map)

lemma map_of_Some_nonempty: "map_of kvs k = Some v \<Longrightarrow> kvs \<noteq> []"
  by auto



text \<open>
  C5. \<^verbatim>\<open>POST /browser/run\<close> with a prompt and \<^verbatim>\<open>async\<close> absent or false invokes the
  agent once, inline, with the prompt and the model (default \<^verbatim>\<open>gpt-4o-mini\<close>). When the
  agent returns, the answer is 200 with \<^verbatim>\<open>{status: "completed", result, prompt}\<close>; when it
  raises, the answer is 500 with \<^verbatim>\<open>{error: str(e)}\<close>; and the status is 500 exactly when
  the agent raises.
\<close>

theorem run_sync_inline:
  assumes "map_of kvs ''prompt'' = Some prompt"
    and "map_of kvs ''async'' = None \<or> map_of kvs ''async'' = Some (JBool False)"
  shows "let a = \<lparr>task = prompt,
                   llm = (case map_of kvs ''model'' of None \<Rightarrow> JStr ''gpt-4o-mini'' | Some m \<Rightarrow> m),
                   use_vision = True, save_conversation_path = None\<rparr>;
             out = run_browser_automation w now (Inr (JObj kvs))
         in calls out = [a] \<and> started out = []
            \<and> (\<forall>result. agent w a = Inr result \<longrightarrow>
                  resp out = \<lparr>status_code = 200,
                               body = JObj [(''status'', JStr ''completed''),
                                            (''result'', JStr (str_result w result)),
                                            (''prompt'', prompt)]\<rparr>)
            \<and> (\<forall>e. agent w a = Inl e \<longrightarrow>
                  resp out = \<lparr>status_code = 500, body = JObj [(''error'', JStr (str_exc w e))]\<rparr>)
            \<and> (status_code (resp out) = 500 \<longleftrightarrow> (\<exists>e. agent w a = Inl e))"
proof -
  have k: "''prompt'' \<in> set (map fst kvs)" and ne: "kvs \<noteq> []"
    using assms(1) by (rule map_of_Some_in_keys, rule map_of_Some_nonempty)
  from assms(2) show ?thesis
    using k ne assms(1)
    by (auto simp: run_browser_automation_def Let_def server_error_def error_response_def
             split: sum.splits option.splits)
qed


theorem run_sync_inline_witness:
  "map_of [(''prompt'', JStr ''open example.com'')] ''prompt'' = Some (JStr ''open example.com'')
   \<and> map_of [(''prompt'', JStr ''open example.com'')] ''async'' = None
   \<and> calls (run_browser_automation stub_world 1700000000 (Inr (JObj [(''prompt'', JStr ''open example.com'')])))
       = [\<lparr>task = JStr ''open example.com'', llm = JStr ''gpt-4o-mini'', use_vision = True,
           save_conversation_path = None\<rparr>]
   \<and> resp (run_browser_automation stub_world 1700000000 (Inr (JObj [(''prompt'', JStr ''open example.com'')])))
       = \<lparr>status_code = 200,
          body = JObj [(''status'', JStr ''completed''), (''result'', JStr ''done''),
                       (''prompt'', JStr ''open example.com'')]\<rparr>
   \<and> map_of [(''prompt'', JStr ''boom''), (''async'', JBool False)] ''async'' = Some (JBool False)
   \<and> resp (run_browser_automation stub_world 1700000000
               (Inr (JObj [(''prompt'', JStr ''boom''), (''async'', JBool False)])))
       = \<lparr>status_code = 500, body = JObj [(''error'', JStr ''agent failed'')]\<rparr>"
  using run_sync_inline [of "[(''prompt'', JStr ''open example.com'')]" "JStr ''open example.com''"
                            stub_world 1700000000]
        run_sync_inline [of "[(''prompt'', JStr ''boom''), (''async'', JBool False)]" "JStr ''boom''"
                            stub_world 1700000000]
  by (simp add: stub_world_def Let_def str_exc_def)

text \<open>
  C8. \<^verbatim>\<open>POST /browser/run\<close> with a prompt and \<^verbatim>\<open>async\<close> true is answered with 200 and
  \<^verbatim>\<open>{task_id, status: "started", message}\<close> without any inline invocation of the agent:
  a thread is started with the task id, the prompt and the model. The task id is
  \<^verbatim>\<open>task_\<close> followed by the decimal digits of \<^verbatim>\<open>int(time.time() * 1000)\<close>, the epoch time
  in whole milliseconds; two dispatches in the same millisecond get the same id.
\<close>

theorem run_async_dispatch:
  assumes "map_of kvs ''prompt'' = Some prompt"
    and "map_of kvs ''async'' = Some (JBool True)"
  shows "run_browser_automation w now (Inr (JObj kvs))
           = \<lparr>resp = \<lparr>status_code = 200,
                       body = JObj [(''task_id'', JStr (''task_'' @ show_int (py_int (now * 1000)))),
                                    (''status'', JStr ''started''),
                                    (''message'', JStr ''Task started. Use /browser/status/{task_id} to check progress'')]\<rparr>,
              calls = [],
              started = [(''task_'' @ show_int (py_int (now * 1000)), prompt,
                          (case map_of kvs ''model'' of None \<Rightarrow> JStr ''gpt-4o-mini'' | Some m \<Rightarrow> m))]\<rparr>
         \<and> (0 \<le> now \<longrightarrow> py_int (now * 1000) = \<lfloor>now * 1000\<rfloor>)
         \<and> (\<forall>now' w' kvs' prompt'.
               map_of kvs' ''prompt'' = Some prompt' \<longrightarrow> map_of kvs' ''async'' = Some (JBool True) \<longrightarrow>
               py_int (now' * 1000) = py_int (now * 1000) \<longrightarrow>
               map fst (started (run_browser_automation w' now' (Inr (JObj kvs'))))
                 = map fst (started (run_browser_automation w now (Inr (JObj kvs)))))"
proof -
  have main: "run_browser_automation w t (Inr (JObj xs))
           = \<lparr>resp = \<lparr>status_code = 200,
                       body = JObj [(''task_id'', JStr (''task_'' @ show_int (py_int (t * 1000)))),
                                    (''status'', JStr ''started''),
                                    (''message'', JStr ''Task started. Use /browser/status/{task_id} to check progress'')]\<rparr>,
              calls = [],
              started = [(''task_'' @ show_int (py_int (t * 1000)), p,
                          (case map_of xs ''model'' of None \<Rightarrow> JStr ''gpt-4o-mini'' | Some m \<Rightarrow> m))]\<rparr>"
    if "map_of xs ''prompt'' = Some p" "map_of xs ''async'' = Some (JBool True)"
    for w :: "'x world" and t xs p
    using that map_of_Some_in_keys [OF that(1)] map_of_Some_nonempty [OF that(1)]
    by (simp add: run_browser_automation_def Let_def)
  have trunc: "0 \<le> now \<longrightarrow> py_int (now * 1000) = \<lfloor>now * 1000\<rfloor>"
    by (simp add: py_int_def)
  have same: "map fst (started (run_browser_automation w' now' (Inr (JObj kvs'))))
                = map fst (started (run_browser_automation w now (Inr (JObj kvs))))"
    if "map_of kvs' ''prompt'' = Some prompt'" "map_of kvs' ''async'' = Some (JBool True)"
       "py_int (now' * 1000) = py_int (now * 1000)"
    for now' and w' :: "'b world" and kvs' prompt'
    by (simp add: main [OF that(1,2)] main [OF assms] that(3))
  from main [OF assms] trunc same show ?thesis
    by blast
qed

theorem run_async_dispatch_witness:
  "map_of [(''prompt'', JStr ''open example.com''), (''async'', JBool True)] ''prompt''
     = Some (JStr ''open example.com'')
   \<and> map_of [(''prompt'', JStr ''open example.com''), (''async'', JBool True)] ''async''
     = Some (JBool True)
   \<and> run_browser_automation stub_world (17000000001234 / 10000)
        (Inr (JObj [(''prompt'', JStr ''open example.com''), (''async'', JBool True)]))
     = \<lparr>resp = \<lparr>status_code = 200,
                 body = JObj [(''task_id'', JStr ''task_1700000000123''),
                              (''status'', JStr ''started''),
                              (''message'', JStr ''Task started. Use /browser/status/{task_id} to check progress'')]\<rparr>,
        calls = [],
        started = [(''task_1700000000123'', JStr ''open example.com'', JStr ''gpt-4o-mini'')]\<rparr>"
proof -
  have p: "map_of [(''prompt'', JStr ''open example.com''), (''async'', JBool True)] ''prompt''
             = Some (JStr ''open example.com'')"
    by simp
  have a: "map_of [(''prompt'', JStr ''open example.com''), (''async'', JBool True)] ''async''
             = Some (JBool True)"
    by simp
  have t: "''task_'' @ show_int (py_int (17000000001234 / 10000 * 1000)) = ''task_1700000000123''"
    by (simp add: py_int_def show_int_def show_nat.simps digit_def)
  from run_async_dispatch [OF p a, of stub_world "17000000001234 / 10000", THEN conjunct1]
  show ?thesis
    unfolding t by simp
qed

section \<open>The simple route\<close>

text \<open>
  With \<^verbatim>\<open>action\<close> and \<^verbatim>\<open>target\<close> in the body, the route is past its first check and
  what it does is decided by the prompts dict and the lookup of the action.
\<close>

lemma simple_fields:
  assumes "map_of kvs ''action'' = Some action" and "map_of kvs ''target'' = Some target"
  shows "simple_browser_task w (Inr (JObj kvs)) =
    (case prompts w target (case map_of kvs ''data'' of None \<Rightarrow> JObj [] | Some d \<Rightarrow> d) of
       Inl e \<Rightarrow> answer (server_error w e)
     | Inr ps \<Rightarrow>
        (case lookup_action ps action of
           Inl e \<Rightarrow> answer (server_error w e)
         | Inr None \<Rightarrow> answer (error_response 400 (''Unsupported action: '' @ py_str w action))
         | Inr (Some prompt) \<Rightarrow>
             (let a = \<lparr>task = JStr prompt, llm = JStr ''gpt-4o-mini'', use_vision = True,
                       save_conversation_path = None\<rparr> in
              case agent w a of
                Inl e \<Rightarrow> \<lparr>resp = server_error w e, calls = [a], started = []\<rparr>
              | Inr result \<Rightarrow>
                  \<lparr>resp = \<lparr>status_code = 200,
                            body = JObj [(''status'', JStr ''completed''),
                                         (''action'', action),
                                         (''target'', target),
                                         (''result'', JStr (str_result w result))]\<rparr>,
                   calls = [a], started = []\<rparr>)))"
  using assms map_of_Some_in_keys [OF assms(1)] map_of_Some_in_keys [OF assms(2)]
        map_of_Some_nonempty [OF assms(1)]
  by (simp add: simple_browser_task_def)

text \<open>
  Building the dict \<^verbatim>\<open>prompts\<close> raises when \<^verbatim>\<open>extra_data\<close> is not a dict, and gives the
  four templates when it is.
\<close>

lemma prompts_not_dict: "\<not> is_dict d \<Longrightarrow> prompts w target d = Inl AttributeError"
  by (cases d) (simp_all add: prompts_def)

lemma prompts_dict:
  "prompts w target (JObj d) =
     Inr [(''search'', ''Search for '' @ [CHR 0x27] @ py_str w target @ [CHR 0x27]
              @ '' on Google and return the top 3 results with titles and URLs''),
          (''scrape'', ''Go to '' @ py_str w target
              @ '' and extract the main content, headings, and key information from the page''),
          (''click'', ''Go to '' @ py_str w target @ '' and click on the element: ''
              @ py_str w (case map_of d ''element'' of None \<Rightarrow> JStr ''submit button'' | Some e \<Rightarrow> e)),
          (''fill_form'', ''Go to '' @ py_str w target
              @ '' and fill out the form with this data: '' @ json_dumps w (JObj d))]"
  by (simp add: prompts_def)

text \<open>
  C9. \<^verbatim>\<open>POST /browser/simple\<close> with \<^verbatim>\<open>action\<close> and \<^verbatim>\<open>target\<close> in the body and a
  \<^verbatim>\<open>data\<close> field that is present and is not a mapping is answered with 500 and
  \<^verbatim>\<open>{error: str(e)}\<close>, whatever the action is (supported or not), because the click
  template calls \<^verbatim>\<open>extra_data.get\<close> before the action is looked at; the agent is not
  invoked.
\<close>

theorem simple_non_mapping_data:
  assumes "map_of kvs ''action'' = Some action"
    and "map_of kvs ''target'' = Some target"
    and "map_of kvs ''data'' = Some d"
    and "\<not> is_dict d"
  shows "simple_browser_task w (Inr (JObj kvs))
           = \<lparr>resp = \<lparr>status_code = 500,
                       body = JObj [(''error'', JStr (str_exc w AttributeError))]\<rparr>,
              calls = [], started = []\<rparr>"
  by (simp add: simple_fields [OF assms(1,2)] assms(3) prompts_not_dict [OF assms(4)]
        answer_def server_error_def error_response_def)

theorem simple_non_mapping_data_witness:
  "simple_browser_task stub_world
     (Inr (JObj [(''action'', JStr ''search''), (''target'', JStr ''cats''), (''data'', JStr ''plain text'')]))
     = \<lparr>resp = \<lparr>status_code = 500, body = JObj [(''error'', JStr ''<message>'')]\<rparr>,
        calls = [], started = []\<rparr>
   \<and> simple_browser_task stub_world
     (Inr (JObj [(''action'', JStr ''search''), (''target'', JStr ''cats''), (''data'', JList [])]))
     = \<lparr>resp = \<lparr>status_code = 500, body = JObj [(''error'', JStr ''<message>'')]\<rparr>,
        calls = [], started = []\<rparr>"
  using simple_non_mapping_data [of "[(''action'', JStr ''search''), (''target'', JStr ''cats''), (''data'', JStr ''plain text'')]"
                                    "JStr ''search''" "JStr ''cats''" "JStr ''plain text''" stub_world]
        simple_non_mapping_data [of "[(''action'', JStr ''search''), (''target'', JStr ''cats''), (''data'', JList [])]"
                                    "JStr ''search''" "JStr ''cats''" "JList []" stub_world]
  by (simp add: str_exc_def stub_world_def)


text \<open>
  C1. \<^verbatim>\<open>POST /browser/simple\<close> with a supported action and a target: whenever a prompt
  is handed to the agent, it is the template of that action. With \<^verbatim>\<open>data\<close> absent (then
  the empty mapping is used) or a mapping, the agent is invoked exactly once, with
  \<^verbatim>\<open>Search for '<target>' on Google and return the top 3 results with titles and URLs\<close>
  for search,
  \<^verbatim>\<open>Go to <target> and extract the main content, headings, and key information from the page\<close>
  for scrape,
  \<^verbatim>\<open>Go to <target> and click on the element: <data.element, or submit button when absent>\<close>
  for click, and
  \<^verbatim>\<open>Go to <target> and fill out the form with this data: <json.dumps(data)>\<close>
  for fill_form. With \<^verbatim>\<open>data\<close> present and not a mapping no prompt is handed to the agent
  at all.
\<close>

theorem simple_prompt_template:
  assumes "map_of kvs ''action'' = Some (JStr a)"
    and "map_of kvs ''target'' = Some target"
    and "a \<in> {''search'', ''scrape'', ''click'', ''fill_form''}"
  shows "(\<forall>d. map_of kvs ''data'' = Some d \<longrightarrow> \<not> is_dict d \<longrightarrow>
            calls (simple_browser_task w (Inr (JObj kvs))) = [])
       \<and> (\<forall>d. map_of kvs ''data'' = None \<and> d = [] \<or> map_of kvs ''data'' = Some (JObj d) \<longrightarrow>
            (\<exists>prompt.
               calls (simple_browser_task w (Inr (JObj kvs)))
                 = [\<lparr>task = JStr prompt, llm = JStr ''gpt-4o-mini'', use_vision = True,
                     save_conversation_path = None\<rparr>]
             \<and> (a = ''search'' \<longrightarrow> prompt =
                   ''Search for '' @ [CHR 0x27] @ py_str w target @ [CHR 0x27]
                     @ '' on Google and return the top 3 results with titles and URLs'')
             \<and> (a = ''scrape'' \<longrightarrow> prompt =
                   ''Go to '' @ py_str w target
                     @ '' and extract the main content, headings, and key information from the page'')
             \<and> (a = ''click'' \<longrightarrow> prompt =
                   ''Go to '' @ py_str w target @ '' and click on the element: ''
                     @ py_str w (case map_of d ''element'' of
                                   None \<Rightarrow> JStr ''submit button'' | Some e \<Rightarrow> e))
             \<and> (a = ''fill_form'' \<longrightarrow> prompt =
                   ''Go to '' @ py_str w target
                     @ '' and fill out the form with this data: '' @ json_dumps w (JObj d))))"
proof -
  note sf = simple_fields [OF assms(1,2)]
  have bad: "calls (simple_browser_task w (Inr (JObj kvs))) = []"
    if "map_of kvs ''data'' = Some d" "\<not> is_dict d" for d
    by (simp add: sf that(1) prompts_not_dict [OF that(2)] answer_def)
  have good: "\<exists>prompt.
               calls (simple_browser_task w (Inr (JObj kvs)))
                 = [\<lparr>task = JStr prompt, llm = JStr ''gpt-4o-mini'', use_vision = True,
                     save_conversation_path = None\<rparr>]
             \<and> (a = ''search'' \<longrightarrow> prompt =
                   ''Search for '' @ [CHR 0x27] @ py_str w target @ [CHR 0x27]
                     @ '' on Google and return the top 3 results with titles and URLs'')
             \<and> (a = ''scrape'' \<longrightarrow> prompt =
                   ''Go to '' @ py_str w target
                     @ '' and extract the main content, headings, and key information from the page'')
             \<and> (a = ''click'' \<longrightarrow> prompt =
                   ''Go to '' @ py_str w target @ '' and click on the element: ''
                     @ py_str w (case map_of d ''element'' of
                                   None \<Rightarrow> JStr ''submit button'' | Some e \<Rightarrow> e))
             \<and> (a = ''fill_form'' \<longrightarrow> prompt =
                   ''Go to '' @ py_str w target
                     @ '' and fill out the form with this data: '' @ json_dumps w (JObj d))"
    if "map_of kvs ''data'' = None \<and> d = [] \<or> map_of kvs ''data'' = Some (JObj d)" for d
  proof -
    have extra: "(case map_of kvs ''data'' of None \<Rightarrow> JObj [] | Some x \<Rightarrow> x) = JObj d"
      using that by auto
    from assms(3) show ?thesis
      unfolding sf extra prompts_dict
      by (auto simp: lookup_action_def Let_def split: sum.splits)
  qed
  from bad good show ?thesis by blast
qed

theorem simple_prompt_template_witness:
  "map_of [(''action'', JStr ''search''), (''target'', JStr ''cats'')] ''action'' = Some (JStr ''search'')
   \<and> ''search'' \<in> {''search'', ''scrape'', ''click'', ''fill_form''}
   \<and> calls (simple_browser_task stub_world
              (Inr (JObj [(''action'', JStr ''search''), (''target'', JStr ''cats'')])))
       = [\<lparr>task = JStr ''Search for 'cats' on Google and return the top 3 results with titles and URLs'',
           llm = JStr ''gpt-4o-mini'', use_vision = True, save_conversation_path = None\<rparr>]
   \<and> calls (simple_browser_task stub_world
              (Inr (JObj [(''action'', JStr ''click''), (''target'', JStr ''http://x''),
                          (''data'', JObj [(''element'', JStr ''Login'')])])))
       = [\<lparr>task = JStr ''Go to http://x and click on the element: Login'',
           llm = JStr ''gpt-4o-mini'', use_vision = True, save_conversation_path = None\<rparr>]
   \<and> calls (simple_browser_task stub_world
              (Inr (JObj [(''action'', JStr ''fill_form''), (''target'', JStr ''http://x''),
                          (''data'', JObj [(''field'', JStr ''value'')])])))
       = [\<lparr>task = JStr (''Go to http://x and fill out the form with this data: {''
                          @ [CHR 0x22] @ ''field'' @ [CHR 0x22] @ '': ''
                          @ [CHR 0x22] @ ''value'' @ [CHR 0x22] @ ''}''),
           llm = JStr ''gpt-4o-mini'', use_vision = True, save_conversation_path = None\<rparr>]
   \<and> calls (simple_browser_task stub_world
              (Inr (JObj [(''action'', JStr ''fill_form''), (''target'', JStr ''http://x''),
                          (''data'', JStr ''plain text'')])))
       = []"
  using simple_prompt_template
          [of "[(''action'', JStr ''search''), (''target'', JStr ''cats'')]" "''search''"
              "JStr ''cats''" stub_world]
        simple_prompt_template
          [of "[(''action'', JStr ''click''), (''target'', JStr ''http://x''),
                (''data'', JObj [(''element'', JStr ''Login'')])]" "''click''"
              "JStr ''http://x''" stub_world]
        simple_prompt_template
          [of "[(''action'', JStr ''fill_form''), (''target'', JStr ''http://x''),
                (''data'', JStr ''plain text'')]" "''fill_form''"
              "JStr ''http://x''" stub_world]
        simple_prompt_template
          [of "[(''action'', JStr ''fill_form''), (''target'', JStr ''http://x''),
                (''data'', JObj [(''field'', JStr ''value'')])]" "''fill_form''"
              "JStr ''http://x''" stub_world]
  by (auto simp: stub_world_def)

text \<open>
  C7, as amended. \<^verbatim>\<open>POST /browser/simple\<close> whose \<^verbatim>\<open>action\<close> field is present and is
  not one of search, scrape, click, fill_form never invokes the agent and starts no
  thread. When the body also has a \<^verbatim>\<open>target\<close>, its \<^verbatim>\<open>data\<close> is absent or a mapping,
  and the action is not a list or a mapping, the answer is 400 with
  \<^verbatim>\<open>{error: "Unsupported action: <action>"}\<close>.
\<close>

theorem simple_unsupported_action:
  assumes "map_of kvs ''action'' = Some action"
    and "action \<notin> {JStr ''search'', JStr ''scrape'', JStr ''click'', JStr ''fill_form''}"
  shows "calls (simple_browser_task w (Inr (JObj kvs))) = []
       \<and> started (simple_browser_task w (Inr (JObj kvs))) = []
       \<and> (\<forall>target.
            map_of kvs ''target'' = Some target \<longrightarrow>
            (map_of kvs ''data'' = None \<or> (\<exists>d. map_of kvs ''data'' = Some (JObj d))) \<longrightarrow>
            hashable action \<longrightarrow>
            resp (simple_browser_task w (Inr (JObj kvs)))
              = \<lparr>status_code = 400,
                 body = JObj [(''error'', JStr (''Unsupported action: '' @ py_str w action))]\<rparr>)"
proof -
  have look: "lookup_action ps action = Inl TypeError \<or> lookup_action ps action = Inr None"
    if "map fst ps = [''search'', ''scrape'', ''click'', ''fill_form'']" for ps :: "(string \<times> string) list"
  proof (cases action)
    case (JStr a)
    with assms(2) have "a \<notin> set (map fst ps)"
      using that by auto
    then have "map_of ps a = None"
      by (simp add: map_of_eq_None_iff)
    with JStr show ?thesis by (simp add: lookup_action_def)
  qed (simp_all add: lookup_action_def)
  have look_h: "lookup_action ps action = Inr None"
    if "map fst ps = [''search'', ''scrape'', ''click'', ''fill_form'']" "hashable action"
    for ps :: "(string \<times> string) list"
    using look [OF that(1)] that(2) by (auto simp: lookup_action_def split: json.splits)
  have keys: "map fst ps = [''search'', ''scrape'', ''click'', ''fill_form'']"
    if "prompts w target extra = Inr ps" for target extra ps
    using that by (auto simp: prompts_def split: sum.splits)
  have no_calls: "calls (simple_browser_task w (Inr (JObj kvs))) = []
                \<and> started (simple_browser_task w (Inr (JObj kvs))) = []"
  proof (cases "map_of kvs ''target''")
    case None
    then have "''target'' \<notin> set (map fst kvs)"
      by (simp add: map_of_eq_None_iff)
    then show ?thesis
      using map_of_Some_in_keys [OF assms(1)] map_of_Some_nonempty [OF assms(1)]
      by (simp add: simple_browser_task_def answer_def)
  next
    case (Some target)
    show ?thesis
    proof (cases "prompts w target (case map_of kvs ''data'' of None \<Rightarrow> JObj [] | Some d \<Rightarrow> d)")
      case (Inl e)
      then show ?thesis
        by (simp add: simple_fields [OF assms(1) Some] answer_def)
    next
      case (Inr ps)
      from look [OF keys [OF Inr]] show ?thesis
        by (auto simp: simple_fields [OF assms(1) Some] Inr answer_def)
    qed
  qed
  have named: "resp (simple_browser_task w (Inr (JObj kvs)))
              = \<lparr>status_code = 400,
                 body = JObj [(''error'', JStr (''Unsupported action: '' @ py_str w action))]\<rparr>"
    if t: "map_of kvs ''target'' = Some target"
      and d: "map_of kvs ''data'' = None \<or> (\<exists>d. map_of kvs ''data'' = Some (JObj d))"
      and h: "hashable action" for target
  proof -
    from d obtain fields where
      extra: "(case map_of kvs ''data'' of None \<Rightarrow> JObj [] | Some x \<Rightarrow> x) = JObj fields"
      by auto
    show ?thesis
      unfolding simple_fields [OF assms(1) t] extra
      using look_h [OF keys [of target "JObj fields"] h]
      by (simp add: prompts_dict answer_def error_response_def)
  qed
  from no_calls named show ?thesis by blast
qed


theorem simple_unsupported_action_witness:
  "map_of [(''action'', JStr ''bogus''), (''target'', JStr ''cats'')] ''action'' = Some (JStr ''bogus'')
   \<and> JStr ''bogus'' \<notin> {JStr ''search'', JStr ''scrape'', JStr ''click'', JStr ''fill_form''}
   \<and> hashable (JStr ''bogus'')
   \<and> calls (simple_browser_task stub_world
              (Inr (JObj [(''action'', JStr ''bogus''), (''target'', JStr ''cats'')]))) = []
   \<and> resp (simple_browser_task stub_world
              (Inr (JObj [(''action'', JStr ''bogus''), (''target'', JStr ''cats'')])))
       = \<lparr>status_code = 400, body = JObj [(''error'', JStr ''Unsupported action: bogus'')]\<rparr>"
  using simple_unsupported_action
          [of "[(''action'', JStr ''bogus''), (''target'', JStr ''cats'')]" "JStr ''bogus''" stub_world]
  by simp

text \<open>
  C7 as first stated fails: with no \<^verbatim>\<open>target\<close> the first check answers 400 with a
  message that does not name the action; with a \<^verbatim>\<open>data\<close> field that is not a mapping,
  or an action that is a list, the answer is 500.
\<close>

theorem simple_unsupported_action_counterexample:
  "resp (simple_browser_task stub_world (Inr (JObj [(''action'', JStr ''bogus'')])))
     = \<lparr>status_code = 400,
        body = JObj [(''error'', JStr ''Missing 'action' or 'target' in request body'')]\<rparr>
   \<and> \<not> str_contains ''bogus'' ''Missing 'action' or 'target' in request body''
   \<and> status_code (resp (simple_browser_task stub_world
        (Inr (JObj [(''action'', JStr ''bogus''), (''target'', JStr ''cats''),
                    (''data'', JStr ''plain text'')])))) = 500
   \<and> status_code (resp (simple_browser_task stub_world
        (Inr (JObj [(''action'', JList [JStr ''bogus'']), (''target'', JStr ''cats'')])))) = 500"
  by (simp add: simple_browser_task_def prompts_def lookup_action_def answer_def
        server_error_def error_response_def)

section \<open>Asynchronous tasks\<close>










section \<open>The registry over the runs of the service\<close>

text \<open>
  No route assigns to \<^verbatim>\<open>results_store\<close>; the only writer is \<^verbatim>\<open>run_browser_task\<close>, which
  stores one record whose status is \<^verbatim>\<open>completed\<close> or \<^verbatim>\<open>error\<close> under the id it was
  started with.
\<close>


lemma serve_keeps_store: "results_store (snd (serve w now st req)) = results_store st"
  by (cases req) (simp_all add: Let_def)

lemma run_browser_task_store:
  "\<exists>record. run_browser_task w now (task_id, prompt, model_name) store
              = Inr (store(task_id \<mapsto> record))
           \<and> (status_of record = Some (JStr ''completed'')
                \<or> status_of record = Some (JStr ''error''))"
proof (cases "agent w \<lparr>task = prompt, llm = model_name, use_vision = True,
                save_conversation_path = Some (''./conversations/'' @ task_id @ ''.json'')\<rparr>")
  case (Inl e)
  have "status_of (JObj [(''status'', JStr ''error''), (''error'', JStr (str_exc w e)),
                         (''timestamp'', JFloat now)]) = Some (JStr ''error'')"
    by simp
  with Inl show ?thesis
    unfolding run_browser_task_def by (simp del: status_of.simps) blast
next
  case (Inr result)
  have "status_of (JObj [(''status'', JStr ''completed''), (''result'', JStr (str_result w result)),
                         (''timestamp'', JFloat now)]) = Some (JStr ''completed'')"
    by simp
  with Inr show ?thesis
    unfolding run_browser_task_def by (simp del: status_of.simps) blast
qed

lemma step_store:
  "results_store (step w now st ev) = results_store st
   \<or> (\<exists>task_id record.
         finished_id st ev = [task_id]
       \<and> results_store (step w now st ev) = (results_store st)(task_id \<mapsto> record)
       \<and> (status_of record = Some (JStr ''completed'')
            \<or> status_of record = Some (JStr ''error'')))"
proof (cases ev)
  case (Request req)
  then show ?thesis by (simp add: serve_keeps_store)
next
  case (Finish i)
  show ?thesis
  proof (cases "i < length (running st)")
    case False
    with Finish show ?thesis by simp
  next
    case True
    obtain task_id prompt model_name where args: "running st ! i = (task_id, prompt, model_name)"
      by (cases "running st ! i") auto
    from run_browser_task_store [of w now task_id prompt model_name "results_store st"]
    obtain r where
      r: "run_browser_task w now (task_id, prompt, model_name) (results_store st)
            = Inr ((results_store st)(task_id \<mapsto> r))"
      and s: "status_of r = Some (JStr ''completed'')
                \<or> status_of r = Some (JStr ''error'')"
      by blast
    from Finish True args r s show ?thesis by auto
  qed
qed

lemma exec_records_final:
  assumes "\<forall>tid record. results_store st tid = Some record \<longrightarrow>
             status_of record = Some (JStr ''completed'') \<or> status_of record = Some (JStr ''error'')"
  shows "\<forall>tid record. results_store (exec st evs) tid = Some record \<longrightarrow>
             status_of record = Some (JStr ''completed'') \<or> status_of record = Some (JStr ''error'')"
  using assms
proof (induction evs arbitrary: st)
  case Nil
  then show ?case by simp
next
  case (Cons x evs)
  obtain w now ev where x: "x = (w, now, ev)"
    by (cases x) auto
  have "\<forall>tid record. results_store (step w now st ev) tid = Some record \<longrightarrow>
          status_of record = Some (JStr ''completed'') \<or> status_of record = Some (JStr ''error'')"
  proof (intro allI impI)
    fix tid r
    assume h: "results_store (step w now st ev) tid = Some r"
    from step_store [of w now st ev] consider
        (same) "results_store (step w now st ev) = results_store st"
      | (written) task_id r' where
          "results_store (step w now st ev) = (results_store st)(task_id \<mapsto> r')"
          "status_of r' = Some (JStr ''completed'') \<or> status_of r' = Some (JStr ''error'')"
      by blast
    then show "status_of r = Some (JStr ''completed'') \<or> status_of r = Some (JStr ''error'')"
    proof cases
      case same
      with h have "results_store st tid = Some r" by simp
      with Cons.prems show ?thesis by blast
    next
      case written
      show ?thesis
      proof (cases "tid = task_id")
        case True
        with h written show ?thesis by simp
      next
        case False
        with h written(1) have "results_store st tid = Some r" by simp
        with Cons.prems show ?thesis by blast
      qed
    qed
  qed
  from Cons.IH [OF this] show ?case
    by (simp add: x)
qed

lemma exec_absent:
  assumes "results_store st tid = None" and "tid \<notin> set (finished_ids st evs)"
  shows "results_store (exec st evs) tid = None"
  using assms
proof (induction evs arbitrary: st)
  case Nil
  then show ?case by simp
next
  case (Cons x evs)
  obtain w now ev where x: "x = (w, now, ev)"
    by (cases x) auto
  from Cons.prems(2) have a: "tid \<notin> set (finished_id st ev)"
    and b: "tid \<notin> set (finished_ids (step w now st ev) evs)"
    by (simp_all add: x)
  have "results_store (step w now st ev) tid = None"
    using step_store [of w now st ev] Cons.prems(1) a by auto
  from Cons.IH [OF this b] show ?case
    by (simp add: x)
qed

text \<open>
  C2, as amended. In every run of the service from the empty registry, every record in
  the registry has status \<^verbatim>\<open>completed\<close> or \<^verbatim>\<open>error\<close>; serving \<^verbatim>\<open>POST /browser/run\<close>, the dispatch of
  an asynchronous task included, leaves the registry as it was, so no \<^verbatim>\<open>started\<close>
  placeholder is written; and the status lookup of a task id under which no background
  execution has finished yet is answered \<^verbatim>\<open>404 {error: "Task not found"}\<close>.
\<close>

theorem no_pending_record:
  "(\<forall>tid record. results_store (exec init evs) tid = Some record \<longrightarrow>
      status_of record = Some (JStr ''completed'') \<or> status_of record = Some (JStr ''error''))
   \<and> results_store (snd (serve w now st (PostRun req))) = results_store st
   \<and> (\<forall>tid. tid \<notin> set (finished_ids init evs) \<longrightarrow>
        get_task_status (results_store (exec init evs)) tid
          = \<lparr>status_code = 404, body = JObj [(''error'', JStr ''Task not found'')]\<rparr>)"
proof -
  have i: "\<forall>tid record. results_store init tid = Some record \<longrightarrow>
             status_of record = Some (JStr ''completed'') \<or> status_of record = Some (JStr ''error'')"
    by (simp add: init_def)
  have n: "results_store init tid = None" for tid
    by (simp add: init_def)
  have "get_task_status (results_store (exec init evs)) tid
          = \<lparr>status_code = 404, body = JObj [(''error'', JStr ''Task not found'')]\<rparr>"
    if "tid \<notin> set (finished_ids init evs)" for tid
    using exec_absent [OF n that] by (simp add: get_task_status_def error_response_def)
  with exec_records_final [OF i, of evs] serve_keeps_store [of w now st "PostRun req"]
  show ?thesis by blast
qed


theorem no_pending_record_witness:
  "''task_1700000000000'' \<notin> set (finished_ids init
       [(stub_world, 1700000000,
           Request (PostRun (Inr (JObj [(''prompt'', JStr ''open example.com''),
                                        (''async'', JBool True)])))),
        (stub_world, 1700000002, Request (GetStatus ''task_1700000000000''))])
   \<and> get_task_status (results_store (exec init
       [(stub_world, 1700000000,
           Request (PostRun (Inr (JObj [(''prompt'', JStr ''open example.com''),
                                        (''async'', JBool True)])))),
        (stub_world, 1700000002, Request (GetStatus ''task_1700000000000''))]))
       ''task_1700000000000''
     = \<lparr>status_code = 404, body = JObj [(''error'', JStr ''Task not found'')]\<rparr>
   \<and> results_store (snd (serve stub_world 1700000000 init
         (PostRun (Inr (JObj [(''prompt'', JStr ''open example.com''),
                              (''async'', JBool True)])))))
     = results_store init
   \<and> results_store (exec init
       [(stub_world, 1700000000,
           Request (PostRun (Inr (JObj [(''prompt'', JStr ''open example.com''),
                                        (''async'', JBool True)])))),
        (stub_world, 1700000002, Request (GetStatus ''task_1700000000000'')),
        (stub_world, 1700000005, Finish 0)]) ''task_1700000000000''
     = Some (JObj [(''status'', JStr ''completed''), (''result'', JStr ''done''),
                   (''timestamp'', JFloat 1700000005)])
   \<and> (status_of (JObj [(''status'', JStr ''completed''), (''result'', JStr ''done''),
                        (''timestamp'', JFloat 1700000005)]) = Some (JStr ''completed'')
      \<or> status_of (JObj [(''status'', JStr ''completed''), (''result'', JStr ''done''),
                          (''timestamp'', JFloat 1700000005)]) = Some (JStr ''error''))"
proof -
  let ?post = "PostRun (Inr (JObj [(''prompt'', JStr ''open example.com''),
                                   (''async'', JBool True)]))"
  let ?before = "[(stub_world, 1700000000, Request ?post),
                  (stub_world, 1700000002, Request (GetStatus ''task_1700000000000''))]"
  let ?run = "[(stub_world, 1700000000, Request ?post),
               (stub_world, 1700000002, Request (GetStatus ''task_1700000000000'')),
               (stub_world, 1700000005, Finish 0)]"
  let ?stored = "JObj [(''status'', JStr ''completed''), (''result'', JStr ''done''),
                       (''timestamp'', JFloat 1700000005)]"
  have d: "started (run_browser_automation stub_world 1700000000
              (Inr (JObj [(''prompt'', JStr ''open example.com''), (''async'', JBool True)])))
     = [(''task_1700000000000'', JStr ''open example.com'', JStr ''gpt-4o-mini'')]"
    by (simp add: run_browser_automation_def Let_def py_int_def show_int_def show_nat.simps digit_def)
  have f: "''task_1700000000000'' \<notin> set (finished_ids init ?before)"
    by simp
  have t: "run_browser_task stub_world 1700000005
             (''task_1700000000000'', JStr ''open example.com'', JStr ''gpt-4o-mini'') Map.empty
           = Inr (Map.empty(''task_1700000000000'' \<mapsto> ?stored))"
    by (simp add: run_browser_task_def stub_world_def)
  have r: "results_store (exec init ?run) ''task_1700000000000'' = Some ?stored"
    by (simp add: d t Let_def init_def)
  from no_pending_record [of ?before stub_world 1700000000 init
         "Inr (JObj [(''prompt'', JStr ''open example.com''), (''async'', JBool True)])"] f
  have a: "get_task_status (results_store (exec init ?before)) ''task_1700000000000''
             = \<lparr>status_code = 404, body = JObj [(''error'', JStr ''Task not found'')]\<rparr>"
    and b: "results_store (snd (serve stub_world 1700000000 init ?post)) = results_store init"
    by blast+
  from no_pending_record [of ?run stub_world 1700000000 init
         "Inr (JObj [(''prompt'', JStr ''open example.com''), (''async'', JBool True)])"] r
  have c: "status_of ?stored = Some (JStr ''completed'') \<or> status_of ?stored = Some (JStr ''error'')"
    by blast
  from f a b r c show ?thesis by blast
qed

text \<open>
  C2 as first stated, for every task and not for every task id, fails: two tasks
  dispatched in the same millisecond are given the same id, and once the first has come
  to its end the lookup under that id is answered 200 with the record of the first, while
  the second is still running and has written nothing.
\<close>

theorem no_pending_record_counterexample:
  "running (exec init
       [(stub_world, 1700000000,
           Request (PostRun (Inr (JObj [(''prompt'', JStr ''first task''),
                                        (''async'', JBool True)])))),
        (stub_world, 3400000000001 / 2000,
           Request (PostRun (Inr (JObj [(''prompt'', JStr ''second task''),
                                        (''async'', JBool True)])))),
        (stub_world, 1700000005, Finish 0)])
     = [(''task_1700000000000'', JStr ''second task'', JStr ''gpt-4o-mini'')]
   \<and> get_task_status (results_store (exec init
       [(stub_world, 1700000000,
           Request (PostRun (Inr (JObj [(''prompt'', JStr ''first task''),
                                        (''async'', JBool True)])))),
        (stub_world, 3400000000001 / 2000,
           Request (PostRun (Inr (JObj [(''prompt'', JStr ''second task''),
                                        (''async'', JBool True)])))),
        (stub_world, 1700000005, Finish 0)])) ''task_1700000000000''
     = \<lparr>status_code = 200,
        body = JObj [(''status'', JStr ''completed''), (''result'', JStr ''done''),
                     (''timestamp'', JFloat 1700000005)]\<rparr>"
proof -
  have d1: "started (run_browser_automation stub_world 1700000000
              (Inr (JObj [(''prompt'', JStr ''first task''), (''async'', JBool True)])))
     = [(''task_1700000000000'', JStr ''first task'', JStr ''gpt-4o-mini'')]"
    by (simp add: run_browser_automation_def Let_def py_int_def show_int_def show_nat.simps digit_def)
  have d2: "started (run_browser_automation stub_world (3400000000001 / 2000)
              (Inr (JObj [(''prompt'', JStr ''second task''), (''async'', JBool True)])))
     = [(''task_1700000000000'', JStr ''second task'', JStr ''gpt-4o-mini'')]"
    by (simp add: run_browser_automation_def Let_def py_int_def show_int_def show_nat.simps digit_def)
  have t: "run_browser_task stub_world 1700000005
             (''task_1700000000000'', JStr ''first task'', JStr ''gpt-4o-mini'') Map.empty
           = Inr (Map.empty(''task_1700000000000'' \<mapsto>
               JObj [(''status'', JStr ''completed''), (''result'', JStr ''done''),
                     (''timestamp'', JFloat 1700000005)]))"
    by (simp add: run_browser_task_def stub_world_def)
  show ?thesis
    by (simp add: d1 d2 t Let_def init_def remove_nth_def get_task_status_def)
qed

end
